theory Spec2Isabelle
  imports Complex_Main
begin

section \<open>Data model\<close>

text \<open>
  The incremental estimator of \<^verbatim>\<open>IncrementalEstimator.cpp\<close>, and the pending decision
  \<^verbatim>\<open>TryBatchResult\<close> of \<^verbatim>\<open>IncrementalEstimator.h\<close>. The two files are of different
  revisions: the methods of the \<^verbatim>\<open>.cpp\<close> file are modelled as they are written there,
  with the members they read and write. A \<^verbatim>\<open>double\<close> is idealised as a \<^typ>\<open>real\<close>
  (finite values, no NaN); the properties below concern the branch structure of the
  estimator, not rounding. A \<^verbatim>\<open>size_t\<close> is a \<^typ>\<open>nat\<close>, with the one subtraction of
  the source written out modulo \<open>2 ^ 64\<close>.
\<close>

text \<open>An \<^verbatim>\<open>Eigen::MatrixXd\<close>: its shape and its coefficients.\<close>

record MatrixXd =
  rows :: nat
  cols :: nat
  coeffs :: "real list"

text \<open>A default-constructed matrix is \<open>0 \<times> 0\<close>.\<close>

definition MatrixXd_default :: MatrixXd where
  "MatrixXd_default = \<lparr>rows = 0, cols = 0, coeffs = []\<rparr>"

text \<open>
  Exceptions become values. \<open>InvalidOperationException\<close> is the exception of the
  source; \<open>NotFound\<close> and \<open>DoubleConsumption\<close> are the two further errors the
  specification names.
\<close>

datatype error = InvalidOperationException | NotFound | DoubleConsumption

record DesignVariable =
  dvId :: nat
  dvGroupId :: nat
  isActive :: bool
  minimalDimensions :: nat

record ErrorTerm =
  etId :: nat
  etDimension :: nat

text \<open>A batch: a shared pointer to an optimization problem, identified by \<open>batchId\<close>.\<close>

record Batch =
  batchId :: nat
  batchDesignVariables :: "DesignVariable list"
  batchErrorTerms :: "ErrorTerm list"

type_synonym parameters = "nat \<rightharpoonup> real list"

subsection \<open>The problem container\<close>

text \<open>
  Modelled from the spec: the class \<^verbatim>\<open>IncrementalOptimizationProblem\<close> (the
  Variable/Residual Pool) is used by the estimator but its code is not part of the
  sources. The pool holds the batches in insertion order, the ordering of the variable
  groups, the values of the design variables, one saved copy of these values, and the
  column and row indices assigned to variables and error terms.
\<close>

record IncrementalOptimizationProblem =
  optimizationProblems :: "Batch list"
  groupsOrdering :: "nat list"
  designVariableValues :: parameters
  designVariablesBackup :: parameters
  blockIndex :: "nat \<rightharpoonup> nat"
  columnBase :: "nat \<rightharpoonup> nat"
  rowBase :: "nat \<rightharpoonup> nat"

definition IncrementalOptimizationProblem_new :: IncrementalOptimizationProblem where
  "IncrementalOptimizationProblem_new =
     \<lparr>optimizationProblems = [], groupsOrdering = [],
      designVariableValues = Map.empty, designVariablesBackup = Map.empty,
      blockIndex = Map.empty, columnBase = Map.empty, rowBase = Map.empty\<rparr>"

text \<open>Modelled from the spec: the groups the variables of a batch declare.\<close>

definition batchGroups :: "Batch \<Rightarrow> nat list" where
  "batchGroups b = remdups (map dvGroupId (batchDesignVariables b))"

text \<open>
  Modelled from the spec: \<^verbatim>\<open>add(batch)\<close> inserts the batch at the end; the groups its
  variables declare and the pool does not know yet join the ordering.
\<close>

definition problem_add :: "Batch \<Rightarrow> IncrementalOptimizationProblem \<Rightarrow> IncrementalOptimizationProblem" where
  "problem_add b p =
     p\<lparr>optimizationProblems := optimizationProblems p @ [b],
       groupsOrdering := groupsOrdering p @
         filter (\<lambda>g. g \<notin> set (groupsOrdering p)) (batchGroups b)\<rparr>"

text \<open>Modelled from the spec: the groups declared by the variables of some batches.\<close>

definition presentGroups :: "Batch list \<Rightarrow> nat list" where
  "presentGroups bs = concat (map batchGroups bs)"

text \<open>
  Modelled from the spec: \<^verbatim>\<open>remove(batch)\<close> takes the batch out of the pool; a group
  that no remaining batch declares leaves the ordering.
\<close>

definition problem_remove :: "Batch \<Rightarrow> IncrementalOptimizationProblem \<Rightarrow> IncrementalOptimizationProblem" where
  "problem_remove b p =
     (let bs = remove1 b (optimizationProblems p)
      in p\<lparr>optimizationProblems := bs,
           groupsOrdering := filter (\<lambda>g. g \<in> set (presentGroups bs)) (groupsOrdering p)\<rparr>)"

text \<open>
  Modelled from the spec: \<^verbatim>\<open>remove(idx)\<close> removes the batch at an insertion index, and
  fails with \<open>NotFound\<close> when no batch is committed there.
\<close>

definition problem_removeIdx :: "nat \<Rightarrow> IncrementalOptimizationProblem \<Rightarrow> error + IncrementalOptimizationProblem" where
  "problem_removeIdx idx p =
     (if idx < length (optimizationProblems p)
      then (let bs = take idx (optimizationProblems p) @ drop (Suc idx) (optimizationProblems p)
            in Inr (p\<lparr>optimizationProblems := bs,
                      groupsOrdering := filter (\<lambda>g. g \<in> set (presentGroups bs)) (groupsOrdering p)\<rparr>))
      else Inl NotFound)"

text \<open>The position of the first element equal to \<open>x\<close> (\<^verbatim>\<open>std::find\<close>); \<open>None\<close> is \<^verbatim>\<open>end()\<close>.\<close>

fun find_pos :: "'a \<Rightarrow> 'a list \<Rightarrow> nat option" where
  "find_pos x [] = None"
| "find_pos x (y # ys) =
     (if y = x then Some 0 else map_option Suc (find_pos x ys))"

text \<open>
  Modelled from the spec: \<^verbatim>\<open>getOptimizationProblem(batch)\<close> looks the batch up and
  returns its position, or the end iterator.
\<close>

definition getOptimizationProblem :: "Batch \<Rightarrow> IncrementalOptimizationProblem \<Rightarrow> nat option" where
  "getOptimizationProblem b p = find_pos b (optimizationProblems p)"

text \<open>Modelled from the spec: the number of batches in the pool.\<close>

definition getNumOptimizationProblems :: "IncrementalOptimizationProblem \<Rightarrow> nat" where
  "getNumOptimizationProblems p = length (optimizationProblems p)"

text \<open>
  Modelled from the spec: \<^verbatim>\<open>saveDesignVariables\<close> snapshots all current variable values
  (a deep copy).
\<close>

definition saveDesignVariables :: "IncrementalOptimizationProblem \<Rightarrow> IncrementalOptimizationProblem" where
  "saveDesignVariables p = p\<lparr>designVariablesBackup := designVariableValues p\<rparr>"

text \<open>
  Modelled from the spec: \<^verbatim>\<open>restoreDesignVariables\<close> restores all variable values from
  the saved snapshot.
\<close>

definition restoreDesignVariables :: "IncrementalOptimizationProblem \<Rightarrow> IncrementalOptimizationProblem" where
  "restoreDesignVariables p = p\<lparr>designVariableValues := designVariablesBackup p\<rparr>"

text \<open>Modelled from the spec: the ordering of the groups is read and written as a whole.\<close>

definition getGroupsOrdering :: "IncrementalOptimizationProblem \<Rightarrow> nat list" where
  "getGroupsOrdering p = groupsOrdering p"

text \<open>Modelled from the spec: \<^verbatim>\<open>setGroupsOrdering\<close> replaces the ordering of the groups.\<close>

definition setGroupsOrdering :: "nat list \<Rightarrow> IncrementalOptimizationProblem \<Rightarrow> IncrementalOptimizationProblem" where
  "setGroupsOrdering gs p = p\<lparr>groupsOrdering := gs\<rparr>"

text \<open>
  Modelled from the spec: the design variables of the pool (\<^verbatim>\<open>numDesignVariables\<close>,
  \<^verbatim>\<open>designVariable(i)\<close>), each once, group after group in the groups ordering.
\<close>

definition designVariables :: "IncrementalOptimizationProblem \<Rightarrow> DesignVariable list" where
  "designVariables p =
     (let dvs = remdups (concat (map batchDesignVariables (optimizationProblems p)))
      in concat (map (\<lambda>g. filter (\<lambda>dv. dvGroupId dv = g) dvs) (groupsOrdering p)))"

text \<open>
  Modelled from the spec: the error terms of the pool (\<^verbatim>\<open>numErrorTerms\<close>,
  \<^verbatim>\<open>errorTerm(i)\<close>), batch after batch.
\<close>

definition errorTerms :: "IncrementalOptimizationProblem \<Rightarrow> ErrorTerm list" where
  "errorTerms p = concat (map batchErrorTerms (optimizationProblems p))"

text \<open>Modelled from the spec: the dimension of a group, the sum over its variables.\<close>

definition getGroupDim :: "nat \<Rightarrow> IncrementalOptimizationProblem \<Rightarrow> nat" where
  "getGroupDim g p =
     sum_list (map minimalDimensions (filter (\<lambda>dv. dvGroupId dv = g) (designVariables p)))"

subsection \<open>Optimizer, linear solver and estimator\<close>

text \<open>
  The options \<^verbatim>\<open>IncrementalEstimator.cpp\<close> reads: \<^verbatim>\<open>_options._verbose\<close>,
  \<^verbatim>\<open>_maxIterations\<close>, \<^verbatim>\<open>_miTol\<close> (the threshold on the information gain),
  \<^verbatim>\<open>_colNorm\<close> and \<^verbatim>\<open>_qrTol\<close>.
\<close>

record Options =
  verbose :: bool
  maxIterations :: nat
  miTol :: real
  colNorm :: bool
  qrTol :: real

record SparseQRLinearSolverOptions =
  lsoColNorm :: bool
  lsoQrTol :: real

text \<open>What the estimator reads from the linear solver after a solve.\<close>

record LinearSolver =
  solverOptions :: SparseQRLinearSolverOptions
  jacobianTranspose :: MatrixXd
  solverRank :: nat
  solverTol :: real
  solverMemoryUsage :: nat

record Optimizer =
  optVerbose :: bool
  optMaxIterations :: nat
  linearSystemSolver :: LinearSolver

text \<open>The statistics of a solve that the estimator reads.\<close>

record SolutionReturnValue =
  iterations :: nat
  JStart :: real
  JFinal :: real

text \<open>The return value, with the members \<^verbatim>\<open>IncrementalEstimator.cpp\<close> writes.\<close>

record ReturnValue =
  r_batchAccepted :: bool
  r_mi :: real
  r_rank :: nat
  r_qrTol :: real
  r_numIterations :: nat
  r_JStart :: real
  r_JFinal :: real
  r_elapsedTime :: real
  r_cholmodMemoryUsage :: nat
  r_NS :: MatrixXd
  r_CS :: MatrixXd
  r_Sigma :: MatrixXd
  r_SigmaP :: MatrixXd
  r_Omega :: MatrixXd

text \<open>
  \<^verbatim>\<open>ReturnValue ret;\<close> leaves the scalar members indeterminate; the model fixes them to
  zero and \<open>False\<close>. The matrices are default-constructed.
\<close>

definition ReturnValue_default :: ReturnValue where
  "ReturnValue_default =
     \<lparr>r_batchAccepted = False, r_mi = 0, r_rank = 0, r_qrTol = 0, r_numIterations = 0,
      r_JStart = 0, r_JFinal = 0, r_elapsedTime = 0, r_cholmodMemoryUsage = 0,
      r_NS = MatrixXd_default, r_CS = MatrixXd_default, r_Sigma = MatrixXd_default,
      r_SigmaP = MatrixXd_default, r_Omega = MatrixXd_default\<rparr>"

text \<open>The members of the estimator that \<^verbatim>\<open>IncrementalEstimator.cpp\<close> reads and writes.\<close>

record IncrementalEstimator =
  problem :: IncrementalOptimizationProblem
  margGroupId :: nat
  mi :: real
  svLogSum :: real
  options :: Options
  optimizer :: Optimizer
  NS :: MatrixXd
  CS :: MatrixXd
  Sigma :: MatrixXd
  SigmaP :: MatrixXd
  Omega :: MatrixXd

text \<open>
  The external collaborators, whose numerics are out of scope, are parameters of the
  model: the construction and initialisation of a linear solver, the nonlinear solve
  (\<^verbatim>\<open>Optimizer2::optimize\<close>, which writes the variable values and the solver and returns
  its statistics), the structural analysis of the linear system, the marginalization
  routine, and the clock. By its type the solve changes the variable values and the solver
  only.
\<close>

record Backend =
  makeLinearSolver :: LinearSolver
  initializeLinearSolver :: "IncrementalOptimizationProblem \<Rightarrow> LinearSolver \<Rightarrow> LinearSolver"
  optimizerOptimize :: "IncrementalOptimizationProblem \<Rightarrow> Optimizer \<Rightarrow>
     SolutionReturnValue \<times> parameters \<times> LinearSolver"
  analyzeSystem :: "DesignVariable list \<Rightarrow> ErrorTerm list \<Rightarrow> IncrementalOptimizationProblem \<Rightarrow>
     Optimizer \<Rightarrow> LinearSolver"
  marginalize :: "MatrixXd \<Rightarrow> nat \<Rightarrow>
     real \<times> MatrixXd \<times> MatrixXd \<times> MatrixXd \<times> MatrixXd \<times> MatrixXd"
  elapsed :: real


section \<open>The estimator\<close>

text \<open>\<^verbatim>\<open>a - b\<close> on \<^verbatim>\<open>size_t\<close> wraps around.\<close>

definition size_t_sub :: "nat \<Rightarrow> nat \<Rightarrow> nat" where
  "size_t_sub a b = nat ((int a - int b) mod 2 ^ 64)"

text \<open>The constructor: no batch, a stored gain and a stored log-sum of zero.\<close>

definition IncrementalEstimator_new :: "Backend \<Rightarrow> nat \<Rightarrow> Options \<Rightarrow> IncrementalEstimator" where
  "IncrementalEstimator_new B groupId opts =
     \<lparr>problem = IncrementalOptimizationProblem_new,
      margGroupId = groupId,
      mi = 0,
      svLogSum = 0,
      options = opts,
      optimizer = \<lparr>optVerbose = verbose opts, optMaxIterations = maxIterations opts,
                   linearSystemSolver = makeLinearSolver B\<rparr>,
      NS = MatrixXd_default, CS = MatrixXd_default, Sigma = MatrixXd_default,
      SigmaP = MatrixXd_default, Omega = MatrixXd_default\<rparr>"

subsection \<open>Accessors\<close>

definition getMutualInformation :: "IncrementalEstimator \<Rightarrow> real" where
  "getMutualInformation e = mi e"

definition getJacobianTranspose :: "IncrementalEstimator \<Rightarrow> MatrixXd" where
  "getJacobianTranspose e = jacobianTranspose (linearSystemSolver (optimizer e))"

definition getRank :: "IncrementalEstimator \<Rightarrow> nat" where
  "getRank e = solverRank (linearSystemSolver (optimizer e))"

definition getQRTol :: "IncrementalEstimator \<Rightarrow> real" where
  "getQRTol e = solverTol (linearSystemSolver (optimizer e))"

definition getCholmodMemoryUsage :: "IncrementalEstimator \<Rightarrow> nat" where
  "getCholmodMemoryUsage e = solverMemoryUsage (linearSystemSolver (optimizer e))"

definition getNumBatches :: "IncrementalEstimator \<Rightarrow> nat" where
  "getNumBatches e = getNumOptimizationProblems (problem e)"

subsection \<open>Methods\<close>

text \<open>
  \<^verbatim>\<open>orderMarginalizedDesignVariables\<close>: the marginalized group is looked up in the groups
  ordering; the call throws when it is absent, and otherwise swaps it with the last group
  unless the two are equal.
\<close>

definition orderMarginalizedDesignVariables :: "IncrementalEstimator \<Rightarrow> error + IncrementalEstimator" where
  "orderMarginalizedDesignVariables e =
     (let groupsOrdering = getGroupsOrdering (problem e)
      in case find_pos (margGroupId e) groupsOrdering of
           None \<Rightarrow> Inl InvalidOperationException
         | Some i \<Rightarrow>
             if groupsOrdering ! i \<noteq> last groupsOrdering
             then Inr (e\<lparr>problem := setGroupsOrdering
                    (groupsOrdering[i := last groupsOrdering,
                                    length groupsOrdering - 1 := groupsOrdering ! i])
                    (problem e)\<rparr>)
             else Inr e)"

definition initLinearSolver :: "Backend \<Rightarrow> IncrementalEstimator \<Rightarrow> IncrementalEstimator" where
  "initLinearSolver B e =
     (let linearSolverOptions = \<lparr>lsoColNorm = colNorm (options e), lsoQrTol = qrTol (options e)\<rparr>;
          opt1 = (optimizer e)\<lparr>optVerbose := verbose (options e),
                               optMaxIterations := maxIterations (options e),
                               linearSystemSolver := makeLinearSolver B\<rparr>;
          opt2 = opt1\<lparr>linearSystemSolver :=
                   initializeLinearSolver B (problem e) (linearSystemSolver opt1)\<rparr>;
          opt3 = opt2\<lparr>linearSystemSolver :=
                   (linearSystemSolver opt2)\<lparr>solverOptions := linearSolverOptions\<rparr>\<rparr>
      in e\<lparr>optimizer := opt3\<rparr>)"

definition optimize :: "Backend \<Rightarrow> IncrementalEstimator \<Rightarrow> SolutionReturnValue \<times> IncrementalEstimator" where
  "optimize B e =
     (let e1 = initLinearSolver B e;
          (srv, vals, ls) = optimizerOptimize B (problem e1) (optimizer e1)
      in (srv, e1\<lparr>problem := (problem e1)\<lparr>designVariableValues := vals\<rparr>,
                  optimizer := (optimizer e1)\<lparr>linearSystemSolver := ls\<rparr>\<rparr>))"

text \<open>
  The block "analyze marginalized system" of \<^verbatim>\<open>reoptimize\<close>, \<^verbatim>\<open>addBatch\<close> and
  \<^verbatim>\<open>removeBatch\<close>: the result is the log-sum of the singular values followed by the null
  space, the column space, the two covariances and the precision matrix.
\<close>

definition analyzeMarginalizedSystem :: "Backend \<Rightarrow> IncrementalEstimator \<Rightarrow>
    real \<times> MatrixXd \<times> MatrixXd \<times> MatrixXd \<times> MatrixXd \<times> MatrixXd" where
  "analyzeMarginalizedSystem B e =
     (let dim = getGroupDim (margGroupId e) (problem e);
          numCols = rows (getJacobianTranspose e)
      in marginalize B (getJacobianTranspose e) (size_t_sub numCols dim))"

definition reoptimize :: "Backend \<Rightarrow> IncrementalEstimator \<Rightarrow> (error + ReturnValue) \<times> IncrementalEstimator" where
  "reoptimize B e =
     (case orderMarginalizedDesignVariables e of
        Inl err \<Rightarrow> (Inl err, e)
      | Inr e1 \<Rightarrow>
          (let (srv, e2) = optimize B e1;
               (sv, ns, cs, sg, sgp, om) = analyzeMarginalizedSystem B e2;
               ret = ReturnValue_default\<lparr>r_NS := ns, r_CS := cs, r_Sigma := sg,
                                          r_SigmaP := sgp, r_Omega := om\<rparr>;
               e3 = e2\<lparr>svLogSum := sv, NS := r_NS ret, CS := r_CS ret,
                       Sigma := r_Sigma ret, SigmaP := r_SigmaP ret\<rparr>;
               ret1 = ret\<lparr>r_batchAccepted := False, r_mi := 0, r_rank := getRank e3,
                          r_qrTol := getQRTol e3, r_numIterations := iterations srv,
                          r_JStart := JStart srv, r_JFinal := JFinal srv\<rparr>
           in (Inr ret1, e3)))"

text \<open>
  \<^verbatim>\<open>restoreLinearSolver\<close>: the first loop gives every active design variable its block
  index and column base, the second gives every error term its row base.
\<close>

fun assignColumns :: "DesignVariable list \<Rightarrow> nat \<Rightarrow> nat \<Rightarrow> (DesignVariable \<times> nat \<times> nat) list" where
  "assignColumns [] n cb = []"
| "assignColumns (dv # rest) n cb =
     (if isActive dv
      then (dv, n, cb) # assignColumns rest (Suc n) (cb + minimalDimensions dv)
      else assignColumns rest n cb)"

fun assignRows :: "ErrorTerm list \<Rightarrow> nat \<Rightarrow> (ErrorTerm \<times> nat) list" where
  "assignRows [] d = []"
| "assignRows (et # rest) d = (et, d) # assignRows rest (d + etDimension et)"

definition restoreLinearSolver :: "Backend \<Rightarrow> IncrementalEstimator \<Rightarrow> IncrementalEstimator" where
  "restoreLinearSolver B e =
     (let e1 = initLinearSolver B e;
          p = problem e1;
          dvl = assignColumns (designVariables p) 0 0;
          dvs = map fst dvl;
          p1 = p\<lparr>blockIndex := fold (\<lambda>(dv, n, cb) m. m(dvId dv \<mapsto> n)) dvl (blockIndex p),
                 columnBase := fold (\<lambda>(dv, n, cb) m. m(dvId dv \<mapsto> cb)) dvl (columnBase p)\<rparr>;
          etl = assignRows (errorTerms p1) 0;
          ets = map fst etl;
          p2 = p1\<lparr>rowBase := fold (\<lambda>(et, d) m. m(etId et \<mapsto> d)) etl (rowBase p1)\<rparr>;
          ls = analyzeSystem B dvs ets p2 (optimizer e1)
      in e1\<lparr>problem := p2, optimizer := (optimizer e1)\<lparr>linearSystemSolver := ls\<rparr>\<rparr>)"

text \<open>
  \<^verbatim>\<open>addBatch\<close>, first part: the batch is inserted, the marginalized group is ordered
  (an exception leaves the estimator as it is at that point), the variables are saved, the
  problem is solved and the marginalized system is analyzed into the return value.
\<close>

definition addBatch_trial :: "Backend \<Rightarrow> Batch \<Rightarrow> IncrementalEstimator \<Rightarrow>
    (error + SolutionReturnValue \<times> real \<times> ReturnValue) \<times> IncrementalEstimator" where
  "addBatch_trial B batch e =
     (let e1 = e\<lparr>problem := problem_add batch (problem e)\<rparr>
      in case orderMarginalizedDesignVariables e1 of
           Inl err \<Rightarrow> (Inl err, e1)
         | Inr e2 \<Rightarrow>
             (let e3 = e2\<lparr>problem := saveDesignVariables (problem e2)\<rparr>;
                  (srv, e4) = optimize B e3;
                  (sv, ns, cs, sg, sgp, om) = analyzeMarginalizedSystem B e4;
                  ret = ReturnValue_default\<lparr>r_NS := ns, r_CS := cs, r_Sigma := sg,
                                             r_SigmaP := sgp, r_Omega := om\<rparr>
              in (Inr (srv, sv, ret), e4)))"

text \<open>"check if the solution is valid".\<close>

definition solutionValid :: "IncrementalEstimator \<Rightarrow> SolutionReturnValue \<Rightarrow> bool" where
  "solutionValid e srv =
     (if iterations srv = optMaxIterations (optimizer e) \<or> JFinal srv \<ge> JStart srv
      then False else True)"

text \<open>
  "first round of estimation?": the result is the flag \<^verbatim>\<open>keepBatch\<close>, the return value
  and the estimator. The warning printed when the rank goes down is not modelled.
\<close>

definition addBatch_score :: "IncrementalEstimator \<Rightarrow> bool \<Rightarrow> real \<Rightarrow> ReturnValue \<Rightarrow>
    bool \<times> ReturnValue \<times> IncrementalEstimator" where
  "addBatch_score e valid sv ret =
     (if svLogSum e = 0 \<and> valid
      then (True, ret\<lparr>r_mi := 0\<rparr>,
            e\<lparr>svLogSum := sv, NS := r_NS ret, CS := r_CS ret, Sigma := r_Sigma ret,
              SigmaP := r_SigmaP ret, Omega := r_Omega ret\<rparr>)
      else
        (let mi' = 0.5 * (sv - svLogSum e);
             ret1 = ret\<lparr>r_mi := mi'\<rparr>
         in if (mi' > miTol (options e) \<or> cols (r_CS ret1) > cols (CS e)) \<and> valid
            then (True, ret1,
                  e\<lparr>svLogSum := sv, mi := mi', NS := r_NS ret1, CS := r_CS ret1,
                    Sigma := r_Sigma ret1, SigmaP := r_SigmaP ret1, Omega := r_Omega ret1\<rparr>)
            else (False, ret1, e)))"

definition addBatch :: "Backend \<Rightarrow> Batch \<Rightarrow> bool \<Rightarrow> IncrementalEstimator \<Rightarrow>
    (error + ReturnValue) \<times> IncrementalEstimator" where
  "addBatch B batch force e =
     (case addBatch_trial B batch e of
        (Inl err, e1) \<Rightarrow> (Inl err, e1)
      | (Inr (srv, sv, ret), e4) \<Rightarrow>
          (let valid = solutionValid e4 srv;
               (keepBatch, ret1, e5) = addBatch_score e4 valid sv ret;
               ret2 = ret1\<lparr>r_batchAccepted := keepBatch \<or> force, r_rank := getRank e5,
                           r_qrTol := getQRTol e5, r_numIterations := iterations srv,
                           r_JStart := JStart srv, r_JFinal := JFinal srv\<rparr>;
               e6 = (if \<not> keepBatch \<and> \<not> force
                     then restoreLinearSolver B
                            (e5\<lparr>problem := restoreDesignVariables
                                  (problem_remove batch (problem e5))\<rparr>)
                     else e5);
               ret3 = ret2\<lparr>r_elapsedTime := elapsed B,
                           r_cholmodMemoryUsage := getCholmodMemoryUsage e6\<rparr>
           in (Inr ret3, e6)))"

text \<open>\<^verbatim>\<open>removeBatch(size_t idx)\<close>.\<close>

definition removeBatchIdx :: "Backend \<Rightarrow> nat \<Rightarrow> IncrementalEstimator \<Rightarrow> (error + unit) \<times> IncrementalEstimator" where
  "removeBatchIdx B idx e =
     (case problem_removeIdx idx (problem e) of
        Inl err \<Rightarrow> (Inl err, e)
      | Inr p \<Rightarrow>
          (let e1 = e\<lparr>problem := p\<rparr>
           in case orderMarginalizedDesignVariables e1 of
                Inl err \<Rightarrow> (Inl err, e1)
              | Inr e2 \<Rightarrow>
                  (let (srv, e3) = optimize B e2;
                       (sv, ns, cs, sg, sgp, om) = analyzeMarginalizedSystem B e3;
                       e4 = e3\<lparr>NS := ns, CS := cs, Sigma := sg, SigmaP := sgp, Omega := om\<rparr>;
                       e5 = e4\<lparr>mi := sv - svLogSum e4\<rparr>;
                       e6 = e5\<lparr>svLogSum := sv\<rparr>
                   in (Inr (), e6))))"

text \<open>\<^verbatim>\<open>removeBatch(const BatchSP& batch)\<close>: nothing happens when the batch is not found.\<close>

definition removeBatch :: "Backend \<Rightarrow> Batch \<Rightarrow> IncrementalEstimator \<Rightarrow> (error + unit) \<times> IncrementalEstimator" where
  "removeBatch B batch e =
     (case getOptimizationProblem batch (problem e) of
        None \<Rightarrow> (Inr (), e)
      | Some idx \<Rightarrow> removeBatchIdx B idx e)"


text \<open>
  The flag \<^verbatim>\<open>keepBatch\<close> of \<^verbatim>\<open>addBatch\<close>: the batch is classified informative.
\<close>

definition keepBatch :: "IncrementalEstimator \<Rightarrow> bool \<Rightarrow> real \<Rightarrow> ReturnValue \<Rightarrow> bool" where
  "keepBatch e valid sv ret = fst (addBatch_score e valid sv ret)"

text \<open>
  A caller adding batches one after the other, each call with the outputs the external
  collaborators have at that call; an exception ends the run.
\<close>

fun addBatches :: "(Backend \<times> Batch \<times> bool) list \<Rightarrow> IncrementalEstimator \<Rightarrow>
    (error + ReturnValue list) \<times> IncrementalEstimator" where
  "addBatches [] e = (Inr [], e)"
| "addBatches ((B, batch, force) # calls) e =
     (case addBatch B batch force e of
        (Inl err, e1) \<Rightarrow> (Inl err, e1)
      | (Inr ret, e1) \<Rightarrow>
          (case addBatches calls e1 of
             (Inl err, e2) \<Rightarrow> (Inl err, e2)
           | (Inr rets, e2) \<Rightarrow> (Inr (ret # rets), e2)))"

subsection \<open>The pending decision\<close>

text \<open>
  \<^verbatim>\<open>TryBatchResult\<close> of the header: the batch pointer, null once the decision is
  consumed, and the return value of the trial. The estimator it points to is passed
  explicitly.
\<close>

record TryBatchResult =
  tbBatch :: "Batch option"
  tbRet :: ReturnValue

definition isSet :: "TryBatchResult \<Rightarrow> bool" where
  "isSet tr = (tbBatch tr \<noteq> None)"

definition unset :: "TryBatchResult \<Rightarrow> TryBatchResult" where
  "unset tr = tr\<lparr>tbBatch := None\<rparr>"

text \<open>
  Modelled from the spec: \<^verbatim>\<open>acceptBatch\<close> and \<^verbatim>\<open>rejectBatch\<close> are declared in the header
  and their code is not part of the sources. A decision that was consumed is an error:
  the backing state of the decision is nullable and checked. Accepting commits the
  trial: the current snapshot of the estimator becomes the snapshot of the trial, by
  \<^verbatim>\<open>updateInternalVariables\<close>, which is declared only and is a parameter here; the pool
  keeps the batch. Rejecting removes the batch from the pool, restores the variable
  values when asked to, and restores the linear solver.
\<close>

definition acceptBatch :: "(ReturnValue \<Rightarrow> IncrementalEstimator \<Rightarrow> IncrementalEstimator) \<Rightarrow>
    TryBatchResult \<Rightarrow> IncrementalEstimator \<Rightarrow> (error + unit) \<times> IncrementalEstimator" where
  "acceptBatch updateInternalVariables tr e =
     (case tbBatch tr of
        None \<Rightarrow> (Inl DoubleConsumption, e)
      | Some batch \<Rightarrow> (Inr (), updateInternalVariables (tbRet tr) e))"

definition rejectBatch :: "Backend \<Rightarrow> TryBatchResult \<Rightarrow> bool \<Rightarrow> IncrementalEstimator \<Rightarrow>
    (error + unit) \<times> IncrementalEstimator" where
  "rejectBatch B tr restoreDesignVars e =
     (case tbBatch tr of
        None \<Rightarrow> (Inl DoubleConsumption, e)
      | Some batch \<Rightarrow>
          (let p = problem_remove batch (problem e);
               p1 = (if restoreDesignVars then restoreDesignVariables p else p)
           in (Inr (), restoreLinearSolver B (e\<lparr>problem := p1\<rparr>))))"

text \<open>
  \<^verbatim>\<open>accept()\<close> and \<^verbatim>\<open>reject(bool)\<close> of the header: the call into the estimator, then
  \<^verbatim>\<open>unset()\<close>; an exception of the call skips the \<^verbatim>\<open>unset()\<close>.
\<close>

definition accept :: "(ReturnValue \<Rightarrow> IncrementalEstimator \<Rightarrow> IncrementalEstimator) \<Rightarrow>
    TryBatchResult \<Rightarrow> IncrementalEstimator \<Rightarrow> (error + unit) \<times> TryBatchResult \<times> IncrementalEstimator" where
  "accept updateInternalVariables tr e =
     (case acceptBatch updateInternalVariables tr e of
        (Inl err, e1) \<Rightarrow> (Inl err, tr, e1)
      | (Inr u, e1) \<Rightarrow> (Inr u, unset tr, e1))"

definition reject :: "Backend \<Rightarrow> bool \<Rightarrow>
    TryBatchResult \<Rightarrow> IncrementalEstimator \<Rightarrow> (error + unit) \<times> TryBatchResult \<times> IncrementalEstimator" where
  "reject B restoreDesignVars tr e =
     (case rejectBatch B tr restoreDesignVars e of
        (Inl err, e1) \<Rightarrow> (Inl err, tr, e1)
      | (Inr u, e1) \<Rightarrow> (Inr u, unset tr, e1))"

text \<open>The two ways of consuming a decision.\<close>

datatype consumption = Accept | Reject bool

fun consume :: "Backend \<Rightarrow> (ReturnValue \<Rightarrow> IncrementalEstimator \<Rightarrow> IncrementalEstimator) \<Rightarrow>
    consumption \<Rightarrow> TryBatchResult \<Rightarrow> IncrementalEstimator \<Rightarrow>
    (error + unit) \<times> TryBatchResult \<times> IncrementalEstimator" where
  "consume B upd Accept tr e = accept upd tr e"
| "consume B upd (Reject r) tr e = reject B r tr e"

section \<open>Example inputs\<close>

definition exTheta :: DesignVariable where
  "exTheta = \<lparr>dvId = 0, dvGroupId = 1, isActive = True, minimalDimensions = 3\<rparr>"

definition exPose :: "nat \<Rightarrow> DesignVariable" where
  "exPose k = \<lparr>dvId = k, dvGroupId = 0, isActive = True, minimalDimensions = 2\<rparr>"

text \<open>A batch observing the calibration variable \<open>exTheta\<close> of group 1 from pose \<open>k\<close>.\<close>

definition exBatch :: "nat \<Rightarrow> Batch" where
  "exBatch k = \<lparr>batchId = k, batchDesignVariables = [exPose k, exTheta],
                batchErrorTerms = [\<lparr>etId = k, etDimension = 2\<rparr>]\<rparr>"

text \<open>A batch without any variable of group 1.\<close>

definition exPoseBatch :: "nat \<Rightarrow> Batch" where
  "exPoseBatch k = \<lparr>batchId = k, batchDesignVariables = [exPose k],
                    batchErrorTerms = [\<lparr>etId = k, etDimension = 2\<rparr>]\<rparr>"

definition exOptions :: Options where
  "exOptions = \<lparr>verbose = False, maxIterations = 20, miTol = 0.2, colNorm = True, qrTol = 0.02\<rparr>"

definition exSolver :: LinearSolver where
  "exSolver = \<lparr>solverOptions = \<lparr>lsoColNorm = False, lsoQrTol = 0\<rparr>,
               jacobianTranspose = \<lparr>rows = 5, cols = 2, coeffs = []\<rparr>,
               solverRank = 5, solverTol = 0.02, solverMemoryUsage = 0\<rparr>"

text \<open>
  External collaborators with fixed outputs: a solve of \<open>it\<close> iterations from cost
  \<open>js\<close> to cost \<open>jf\<close> that writes variable 0, and a marginalization with log-sum
  \<open>sv\<close> and a column space of rank \<open>r\<close>.
\<close>

definition exBackend :: "nat \<Rightarrow> real \<Rightarrow> real \<Rightarrow> real \<Rightarrow> nat \<Rightarrow> Backend" where
  "exBackend it js jf sv r =
     \<lparr>makeLinearSolver = exSolver,
      initializeLinearSolver = (\<lambda>p ls. ls),
      optimizerOptimize = (\<lambda>p opt. (\<lparr>iterations = it, JStart = js, JFinal = jf\<rparr>,
                                     (designVariableValues p)(0 \<mapsto> [jf]),
                                     linearSystemSolver opt)),
      analyzeSystem = (\<lambda>dvs ets p opt. linearSystemSolver opt),
      marginalize = (\<lambda>J n. (sv, \<lparr>rows = 3, cols = 3 - r, coeffs = [sv]\<rparr>,
                                 \<lparr>rows = 3, cols = r, coeffs = [sv]\<rparr>,
                                 \<lparr>rows = 3, cols = 3, coeffs = [sv]\<rparr>,
                                 \<lparr>rows = r, cols = r, coeffs = [sv]\<rparr>,
                                 \<lparr>rows = 3, cols = 3, coeffs = [sv, sv]\<rparr>)),
      elapsed = 1\<rparr>"

text \<open>The estimator as constructed, marginalizing group 1.\<close>

definition exEstimator :: IncrementalEstimator where
  "exEstimator = IncrementalEstimator_new (exBackend 0 0 0 0 0) 1 exOptions"

text \<open>An estimator with one committed batch and a stored snapshot of log-sum \<open>s\<close> and rank 2.\<close>

definition exCommitted :: "real \<Rightarrow> IncrementalEstimator" where
  "exCommitted s =
     exEstimator\<lparr>problem := problem_add (exBatch 1) IncrementalOptimizationProblem_new,
                 svLogSum := s,
                 NS := \<lparr>rows = 3, cols = 1, coeffs = [s]\<rparr>,
                 CS := \<lparr>rows = 3, cols = 2, coeffs = [s]\<rparr>,
                 Sigma := \<lparr>rows = 3, cols = 3, coeffs = [s]\<rparr>,
                 SigmaP := \<lparr>rows = 2, cols = 2, coeffs = [s]\<rparr>,
                 Omega := \<lparr>rows = 3, cols = 3, coeffs = [s, s]\<rparr>\<rparr>"


text \<open>
  Trials of a second batch on the committed estimator. The stored log-sum is 5 and the
  stored rank 2; the threshold is 0.2 and the iteration cap 20.
\<close>

definition exRejected :: "(error + ReturnValue) \<times> IncrementalEstimator" where
  "exRejected = addBatch (exBackend 3 10 1 5 2) (exBatch 2) False (exCommitted 5)"

definition exInformative :: "(error + ReturnValue) \<times> IncrementalEstimator" where
  "exInformative = addBatch (exBackend 3 10 1 6 2) (exBatch 2) False (exCommitted 5)"

definition exForced :: "(error + ReturnValue) \<times> IncrementalEstimator" where
  "exForced = addBatch (exBackend 3 10 1 (51 / 10) 2) (exBatch 2) True (exCommitted 5)"

definition exRankUp :: "(error + ReturnValue) \<times> IncrementalEstimator" where
  "exRankUp = addBatch (exBackend 3 10 1 (51 / 10) 3) (exBatch 2) False (exCommitted 5)"

definition exCapHit :: "(error + ReturnValue) \<times> IncrementalEstimator" where
  "exCapHit = addBatch (exBackend 20 10 1 6 2) (exBatch 2) False (exCommitted 5)"

definition exCostUp :: "(error + ReturnValue) \<times> IncrementalEstimator" where
  "exCostUp = addBatch (exBackend 3 10 12 6 2) (exBatch 2) False (exCommitted 5)"

text \<open>Trials on estimators whose stored log-sum is 0.\<close>

definition exZeroValid :: "(error + ReturnValue) \<times> IncrementalEstimator" where
  "exZeroValid = addBatch (exBackend 3 10 1 2 2) (exBatch 2) False (exCommitted 0)"

definition exZeroInvalid :: "(error + ReturnValue) \<times> IncrementalEstimator" where
  "exZeroInvalid = addBatch (exBackend 20 10 1 2 2) (exBatch 2) False (exCommitted 0)"

definition exFirstForced :: "(error + ReturnValue) \<times> IncrementalEstimator" where
  "exFirstForced = addBatch (exBackend 20 10 1 2 2) (exBatch 1) True exEstimator"

text \<open>
  On the estimator as constructed: a trial whose solve hits the iteration cap, and
  after it a trial of the same batch whose solve converges.
\<close>

definition exRejectedRun :: "(error + ReturnValue list) \<times> IncrementalEstimator" where
  "exRejectedRun = addBatches [(exBackend 20 10 1 2 2, exBatch 1, False)] exEstimator"

definition exFirstAccepted :: "(error + ReturnValue) \<times> IncrementalEstimator" where
  "exFirstAccepted = addBatch (exBackend 3 10 1 2 2) (exBatch 1) False (snd exRejectedRun)"

text \<open>
  On the estimator as constructed: a first batch with a valid solve and a log-sum of 0,
  and after it a second batch with a valid solve, a log-sum of 0.1 and the same rank.
\<close>

definition exBootZero :: "(error + ReturnValue) \<times> IncrementalEstimator" where
  "exBootZero = addBatch (exBackend 3 10 1 0 2) (exBatch 1) False exEstimator"

definition exAfterBootZero :: "(error + ReturnValue) \<times> IncrementalEstimator" where
  "exAfterBootZero = addBatch (exBackend 3 10 1 (1 / 10) 2) (exBatch 2) False (snd exBootZero)"

text \<open>A pending decision on a second batch, and an update of the internal variables.\<close>

definition exDecision :: TryBatchResult where
  "exDecision = \<lparr>tbBatch = Some (exBatch 2), tbRet = ReturnValue_default\<lparr>r_mi := 1\<rparr>\<rparr>"

definition exUpdate :: "ReturnValue \<Rightarrow> IncrementalEstimator \<Rightarrow> IncrementalEstimator" where
  "exUpdate ret e = e\<lparr>mi := r_mi ret, NS := r_NS ret, CS := r_CS ret, Sigma := r_Sigma ret,
                      SigmaP := r_SigmaP ret, Omega := r_Omega ret\<rparr>"

text \<open>The first part of a trial, with its solver statistics, log-sum and return value.\<close>

definition trialSrv :: "(error + SolutionReturnValue \<times> real \<times> ReturnValue) \<times> IncrementalEstimator
    \<Rightarrow> SolutionReturnValue" where
  "trialSrv T = fst (projr (fst T))"

definition trialSv :: "(error + SolutionReturnValue \<times> real \<times> ReturnValue) \<times> IncrementalEstimator
    \<Rightarrow> real" where
  "trialSv T = fst (snd (projr (fst T)))"

definition trialRet :: "(error + SolutionReturnValue \<times> real \<times> ReturnValue) \<times> IncrementalEstimator
    \<Rightarrow> ReturnValue" where
  "trialRet T = snd (snd (projr (fst T)))"

section \<open>Frame lemmas\<close>

text \<open>What each step of a call leaves alone.\<close>

lemma find_pos_None: "find_pos x xs = None \<longleftrightarrow> x \<notin> set xs"
  by (induction xs) auto

lemma order_frame:
  assumes "orderMarginalizedDesignVariables e = Inr e'"
  obtains gs where "e' = e\<lparr>problem := (problem e)\<lparr>groupsOrdering := gs\<rparr>\<rparr>"
proof -
  from assms have "e' = e\<lparr>problem := (problem e)\<lparr>groupsOrdering := groupsOrdering (problem e')\<rparr>\<rparr>"
    by (auto simp: orderMarginalizedDesignVariables_def setGroupsOrdering_def Let_def
        split: if_splits option.splits)
  then show ?thesis using that by blast
qed

lemma optimize_frame:
  assumes "optimize B e = (srv, e')"
  obtains vals opt where
    "e' = e\<lparr>problem := (problem e)\<lparr>designVariableValues := vals\<rparr>, optimizer := opt\<rparr>"
    "optMaxIterations opt = maxIterations (options e)"
proof -
  from assms have
    "e' = e\<lparr>problem := (problem e)\<lparr>designVariableValues := designVariableValues (problem e')\<rparr>,
            optimizer := optimizer e'\<rparr>"
    "optMaxIterations (optimizer e') = maxIterations (options e)"
    by (auto simp: optimize_def initLinearSolver_def Let_def split: prod.splits)
  then show ?thesis using that by blast
qed

lemma restoreLinearSolver_frame:
  obtains bi cb rb opt where
    "restoreLinearSolver B e =
       e\<lparr>problem := (problem e)\<lparr>blockIndex := bi, columnBase := cb, rowBase := rb\<rparr>,
         optimizer := opt\<rparr>"
  by (simp add: restoreLinearSolver_def initLinearSolver_def Let_def)

lemma addBatch_trial_frame:
  assumes "addBatch_trial B batch e = (Inr (srv, sv, ret), e4)"
  obtains gs vals opt where
    "e4 = e\<lparr>problem := (problem_add batch (problem e))
               \<lparr>groupsOrdering := gs, designVariablesBackup := designVariableValues (problem e),
                designVariableValues := vals\<rparr>,
            optimizer := opt\<rparr>"
    "optMaxIterations opt = maxIterations (options e)"
proof -
  let ?e1 = "e\<lparr>problem := problem_add batch (problem e)\<rparr>"
  from assms obtain e2 where o: "orderMarginalizedDesignVariables ?e1 = Inr e2"
    by (auto simp: addBatch_trial_def Let_def split: sum.splits)
  let ?e3 = "e2\<lparr>problem := saveDesignVariables (problem e2)\<rparr>"
  from assms o have opt: "fst (optimize B ?e3) = srv" "snd (optimize B ?e3) = e4"
    by (auto simp: addBatch_trial_def Let_def split: prod.splits)
  then have opt': "optimize B ?e3 = (srv, e4)" by (metis prod.collapse)
  from o obtain gs where e2: "e2 = ?e1\<lparr>problem := (problem ?e1)\<lparr>groupsOrdering := gs\<rparr>\<rparr>"
    by (rule order_frame)
  from opt' obtain vals opt where
    e4: "e4 = ?e3\<lparr>problem := (problem ?e3)\<lparr>designVariableValues := vals\<rparr>, optimizer := opt\<rparr>"
    and mx: "optMaxIterations opt = maxIterations (options ?e3)"
    by (rule optimize_frame)
  have "e4 = e\<lparr>problem := (problem_add batch (problem e))
               \<lparr>groupsOrdering := gs, designVariablesBackup := designVariableValues (problem e),
                designVariableValues := vals\<rparr>,
            optimizer := opt\<rparr>"
    by (simp add: e4 e2 saveDesignVariables_def problem_add_def)
  moreover have "optMaxIterations opt = maxIterations (options e)"
    using mx by (simp add: e2)
  ultimately show ?thesis using that by blast
qed

lemma addBatch_trial_ret:
  assumes "addBatch_trial B batch e = (Inr (srv, sv, ret), e4)"
  shows "analyzeMarginalizedSystem B e4 = (sv, r_NS ret, r_CS ret, r_Sigma ret, r_SigmaP ret, r_Omega ret)"
  using assms
  by (auto simp: addBatch_trial_def Let_def split: sum.splits prod.splits)

lemma addBatch_trial_fields:
  assumes "addBatch_trial B batch e = (Inr (srv, sv, ret), e4)"
  shows "svLogSum e4 = svLogSum e" "mi e4 = mi e" "options e4 = options e"
    "NS e4 = NS e" "CS e4 = CS e" "Sigma e4 = Sigma e" "SigmaP e4 = SigmaP e" "Omega e4 = Omega e"
    "optMaxIterations (optimizer e4) = maxIterations (options e)"
    "optimizationProblems (problem e4) = optimizationProblems (problem e) @ [batch]"
proof -
  from assms obtain gs vals opt where e4:
    "e4 = e\<lparr>problem := (problem_add batch (problem e))
               \<lparr>groupsOrdering := gs, designVariablesBackup := designVariableValues (problem e),
                designVariableValues := vals\<rparr>,
            optimizer := opt\<rparr>"
    and mx: "optMaxIterations opt = maxIterations (options e)"
    by (rule addBatch_trial_frame)
  show "svLogSum e4 = svLogSum e" "mi e4 = mi e" "options e4 = options e"
    "NS e4 = NS e" "CS e4 = CS e" "Sigma e4 = Sigma e" "SigmaP e4 = SigmaP e" "Omega e4 = Omega e"
    "optMaxIterations (optimizer e4) = maxIterations (options e)"
    "optimizationProblems (problem e4) = optimizationProblems (problem e) @ [batch]"
    using mx by (simp_all add: e4 problem_add_def)
qed

lemma addBatch_score_ret:
  assumes "addBatch_score e valid sv ret = (keep, ret1, e5)"
  shows "r_NS ret1 = r_NS ret" "r_CS ret1 = r_CS ret" "r_Sigma ret1 = r_Sigma ret"
    "r_SigmaP ret1 = r_SigmaP ret" "r_Omega ret1 = r_Omega ret"
    "problem e5 = problem e" "optimizer e5 = optimizer e" "options e5 = options e"
  using assms by (auto simp: addBatch_score_def Let_def split: if_splits)

lemma addBatch_trial_exists:
  assumes "addBatch B batch force e = (Inr ret, e')"
  obtains srv sv ret0 e4 where "addBatch_trial B batch e = (Inr (srv, sv, ret0), e4)"
  using assms by (auto simp: addBatch_def split: prod.splits sum.splits)

lemma addBatch_after_trial:
  assumes trial: "addBatch_trial B batch e = (Inr (srv, sv, ret0), e4)"
    and score: "addBatch_score e4 (solutionValid e4 srv) sv ret0 = (keep, ret1, e5)"
    and call: "addBatch B batch force e = (Inr ret, e')"
  shows "r_batchAccepted ret = (keep \<or> force)" "r_mi ret = r_mi ret1"
    "r_NS ret = r_NS ret0" "r_CS ret = r_CS ret0" "r_Sigma ret = r_Sigma ret0"
    "r_SigmaP ret = r_SigmaP ret0" "r_Omega ret = r_Omega ret0"
    "r_numIterations ret = iterations srv" "r_JStart ret = JStart srv" "r_JFinal ret = JFinal srv"
    "e' = (if \<not> keep \<and> \<not> force
           then restoreLinearSolver B
                  (e5\<lparr>problem := restoreDesignVariables (problem_remove batch (problem e5))\<rparr>)
           else e5)"
  using call addBatch_score_ret [OF score]
  by (auto simp: addBatch_def trial score Let_def)

lemma addBatch_rejected_keeps:
  assumes call: "addBatch B batch force e = (Inr ret, e')"
    and rej: "\<not> r_batchAccepted ret"
  shows "svLogSum e' = svLogSum e" "options e' = options e"
proof -
  from call obtain srv sv ret0 e4 where
    trial: "addBatch_trial B batch e = (Inr (srv, sv, ret0), e4)"
    by (rule addBatch_trial_exists)
  obtain keep ret1 e5 where
    score: "addBatch_score e4 (solutionValid e4 srv) sv ret0 = (keep, ret1, e5)"
    by (metis prod.collapse)
  note after = addBatch_after_trial [OF trial score call]
  from rej after(1) have nk: "\<not> keep" "\<not> force" by auto
  from score nk have e5: "e5 = e4"
    by (auto simp: addBatch_score_def Let_def split: if_splits)
  let ?e = "e4\<lparr>problem := restoreDesignVariables (problem_remove batch (problem e4))\<rparr>"
  obtain bi cb rb opt' where r:
    "restoreLinearSolver B ?e =
       ?e\<lparr>problem := (problem ?e)\<lparr>blockIndex := bi, columnBase := cb, rowBase := rb\<rparr>,
          optimizer := opt'\<rparr>"
    by (rule restoreLinearSolver_frame)
  from after(11) nk e5 have "e' = restoreLinearSolver B ?e" by simp
  then show "svLogSum e' = svLogSum e" "options e' = options e"
    by (simp_all add: r addBatch_trial_fields [OF trial])
qed

lemma addBatches_rejected_keeps:
  assumes "addBatches calls e = (Inr rets, e')"
    and "\<forall>r \<in> set rets. \<not> r_batchAccepted r"
  shows "svLogSum e' = svLogSum e \<and> options e' = options e"
  using assms
proof (induction calls arbitrary: e rets)
  case Nil
  then show ?case by simp
next
  case (Cons c calls)
  obtain B batch force where c: "c = (B, batch, force)"
    by (cases c) auto
  from Cons.prems(1) obtain ret e1 rets' where
    call: "addBatch B batch force e = (Inr ret, e1)"
    and rest: "addBatches calls e1 = (Inr rets', e')"
    and rets: "rets = ret # rets'"
    by (auto simp: c split: prod.splits sum.splits)
  from Cons.prems(2) have rej: "\<not> r_batchAccepted ret"
    and rej': "\<forall>r \<in> set rets'. \<not> r_batchAccepted r"
    by (simp_all add: rets)
  from Cons.IH [OF rest rej'] addBatch_rejected_keeps [OF call rej]
  show ?case by simp
qed

lemma addBatch_score_zero:
  assumes "addBatch_score e valid sv ret = (keep, ret1, e5)"
    and "svLogSum e = 0"
  shows "keep = valid" "r_mi ret1 = (if valid then 0 else 0.5 * sv)"
  using assms by (auto simp: addBatch_score_def Let_def split: if_splits)

lemma reoptimize_result:
  assumes "reoptimize B e = (Inr ret, e')"
  shows "Omega e' = Omega e \<and> NS e' = r_NS ret \<and> CS e' = r_CS ret \<and> Sigma e' = r_Sigma ret
       \<and> SigmaP e' = r_SigmaP ret \<and> r_mi ret = 0 \<and> \<not> r_batchAccepted ret
       \<and> optimizationProblems (problem e') = optimizationProblems (problem e)"
proof -
  from assms obtain e1 where o: "orderMarginalizedDesignVariables e = Inr e1"
    by (auto simp: reoptimize_def split: sum.splits)
  obtain srv e2 where opt: "optimize B e1 = (srv, e2)"
    by (metis prod.collapse)
  from o obtain gs where e1: "e1 = e\<lparr>problem := (problem e)\<lparr>groupsOrdering := gs\<rparr>\<rparr>"
    by (rule order_frame)
  from opt obtain vals op where
    e2: "e2 = e1\<lparr>problem := (problem e1)\<lparr>designVariableValues := vals\<rparr>, optimizer := op\<rparr>"
    by (rule optimize_frame)
  obtain sv ns cs sg sgp om where
    m: "analyzeMarginalizedSystem B e2 = (sv, ns, cs, sg, sgp, om)"
    by (metis prod.collapse)
  from assms have e': "e' = e2\<lparr>svLogSum := sv, NS := ns, CS := cs, Sigma := sg, SigmaP := sgp\<rparr>"
    and ret: "r_NS ret = ns" "r_CS ret = cs" "r_Sigma ret = sg" "r_SigmaP ret = sgp"
      "r_mi ret = 0" "\<not> r_batchAccepted ret"
    by (auto simp: reoptimize_def o opt m Let_def ReturnValue_default_def)
  show ?thesis
    by (simp add: e' ret e2 e1)
qed

text \<open>Evaluation of the examples.\<close>

lemmas problem_defs =
  problem_add_def problem_remove_def problem_removeIdx_def presentGroups_def batchGroups_def
  getOptimizationProblem_def getNumOptimizationProblems_def saveDesignVariables_def
  restoreDesignVariables_def getGroupsOrdering_def setGroupsOrdering_def designVariables_def
  errorTerms_def getGroupDim_def IncrementalOptimizationProblem_new_def

lemmas estimator_defs =
  size_t_sub_def IncrementalEstimator_new_def getJacobianTranspose_def getRank_def getQRTol_def
  getCholmodMemoryUsage_def getNumBatches_def orderMarginalizedDesignVariables_def
  initLinearSolver_def optimize_def analyzeMarginalizedSystem_def reoptimize_def
  restoreLinearSolver_def addBatch_trial_def solutionValid_def addBatch_score_def addBatch_def
  removeBatchIdx_def removeBatch_def keepBatch_def ReturnValue_default_def MatrixXd_default_def

lemmas example_defs =
  exTheta_def exPose_def exBatch_def exPoseBatch_def exOptions_def exSolver_def exBackend_def
  exEstimator_def exCommitted_def exDecision_def exUpdate_def

lemmas eval_defs = example_defs problem_defs estimator_defs Let_def

lemma result_collapse: "fst p = Inr (projr (fst p)) \<Longrightarrow> p = (Inr (projr (fst p)), snd p)"
  by (metis prod.collapse)

lemma trial_collapse:
  "fst T = Inr (projr (fst T)) \<Longrightarrow> T = (Inr (trialSrv T, trialSv T, trialRet T), snd T)"
  by (metis prod.collapse trialSrv_def trialSv_def trialRet_def)

section \<open>Rejected trials\<close>

text \<open>
  C1: for every batch trial that is rejected (not kept and not forced), after
  \<^verbatim>\<open>addBatch\<close> returns the committed batches of the pool, the values of the design
  variables, the null space, the column space, the covariances, the precision matrix, the
  log-singular-value sum and the stored information gain are what they were before the
  trial began. The batch is one the pool does not hold yet.
\<close>

theorem addBatch_rejected_restores:
  assumes fresh: "batch \<notin> set (optimizationProblems (problem e))"
    and call: "addBatch B batch force e = (Inr ret, e')"
    and rej: "\<not> r_batchAccepted ret"
  shows "optimizationProblems (problem e') = optimizationProblems (problem e)
       \<and> designVariableValues (problem e') = designVariableValues (problem e)
       \<and> NS e' = NS e \<and> CS e' = CS e \<and> Sigma e' = Sigma e \<and> SigmaP e' = SigmaP e
       \<and> Omega e' = Omega e \<and> svLogSum e' = svLogSum e \<and> mi e' = mi e"
proof -
  from call obtain srv sv ret0 e4 where
    trial: "addBatch_trial B batch e = (Inr (srv, sv, ret0), e4)"
    by (auto simp: addBatch_def split: prod.splits sum.splits)
  obtain keep ret1 e5 where
    score: "addBatch_score e4 (solutionValid e4 srv) sv ret0 = (keep, ret1, e5)"
    by (metis prod.collapse)
  from call trial score have acc: "r_batchAccepted ret = (keep \<or> force)"
    by (auto simp: addBatch_def Let_def)
  with rej have nk: "\<not> keep" and nf: "\<not> force" by auto
  from score nk have e5: "e5 = e4"
    by (auto simp: addBatch_score_def Let_def split: if_splits)
  from call trial score nk nf e5 have e':
    "e' = restoreLinearSolver B
            (e4\<lparr>problem := restoreDesignVariables (problem_remove batch (problem e4))\<rparr>)"
    by (auto simp: addBatch_def Let_def)
  from trial obtain gs vals opt where e4:
    "e4 = e\<lparr>problem := (problem_add batch (problem e))
               \<lparr>groupsOrdering := gs, designVariablesBackup := designVariableValues (problem e),
                designVariableValues := vals\<rparr>,
            optimizer := opt\<rparr>"
    by (rule addBatch_trial_frame)
  let ?e5 = "e4\<lparr>problem := restoreDesignVariables (problem_remove batch (problem e4))\<rparr>"
  obtain bi cb rb opt' where r:
    "restoreLinearSolver B ?e5 =
       ?e5\<lparr>problem := (problem ?e5)\<lparr>blockIndex := bi, columnBase := cb, rowBase := rb\<rparr>,
           optimizer := opt'\<rparr>"
    by (rule restoreLinearSolver_frame)
  have rm: "remove1 batch (optimizationProblems (problem e) @ [batch]) = optimizationProblems (problem e)"
    using fresh by (simp add: remove1_append)
  show ?thesis
    unfolding e' r
    by (simp add: e4 restoreDesignVariables_def problem_remove_def problem_add_def Let_def rm)
qed

theorem addBatch_rejected_restores_witness:
  "exBatch 2 \<notin> set (optimizationProblems (problem (exCommitted 5)))
   \<and> fst exRejected = Inr (projr (fst exRejected))
   \<and> \<not> r_batchAccepted (projr (fst exRejected))
   \<and> optimizationProblems (problem (snd exRejected)) = [exBatch 1]
   \<and> designVariableValues (problem (snd exRejected)) = designVariableValues (problem (exCommitted 5))
   \<and> svLogSum (snd exRejected) = 5
   \<and> Omega (snd exRejected) = Omega (exCommitted 5)"
proof -
  have fresh: "exBatch 2 \<notin> set (optimizationProblems (problem (exCommitted 5)))"
    by (simp add: eval_defs)
  have ok: "fst exRejected = Inr (projr (fst exRejected))"
    by (simp add: exRejected_def eval_defs)
  then have call: "addBatch (exBackend 3 10 1 5 2) (exBatch 2) False (exCommitted 5)
      = (Inr (projr (fst exRejected)), snd exRejected)"
    unfolding exRejected_def by (rule result_collapse)
  have rej: "\<not> r_batchAccepted (projr (fst exRejected))"
    by (simp add: exRejected_def eval_defs)
  have old: "optimizationProblems (problem (exCommitted 5)) = [exBatch 1]"
    "svLogSum (exCommitted 5) = 5"
    by (simp_all add: eval_defs)
  from addBatch_rejected_restores [OF fresh call rej] fresh ok rej old
  show ?thesis by simp
qed

section \<open>Accepted trials\<close>

text \<open>
  C2, as the code has it: for every accepted batch the number of committed batches
  increases by exactly one; when the batch is accepted because it is informative (the
  flag \<^verbatim>\<open>keepBatch\<close>), the null space, the column space, the covariances, the precision
  matrix and the log-singular-value sum of the estimator are those the trial computed,
  with no further recomputation.
\<close>

theorem addBatch_accepted_commits:
  assumes trial: "addBatch_trial B batch e = (Inr (srv, sv, ret0), e4)"
    and call: "addBatch B batch force e = (Inr ret, e')"
    and acc: "r_batchAccepted ret"
  shows "getNumBatches e' = getNumBatches e + 1
       \<and> (keepBatch e4 (solutionValid e4 srv) sv ret0 \<longrightarrow>
            analyzeMarginalizedSystem B e4 = (svLogSum e', NS e', CS e', Sigma e', SigmaP e', Omega e')
            \<and> NS e' = r_NS ret \<and> CS e' = r_CS ret \<and> Sigma e' = r_Sigma ret
            \<and> SigmaP e' = r_SigmaP ret \<and> Omega e' = r_Omega ret \<and> svLogSum e' = sv)"
proof -
  obtain keep ret1 e5 where
    score: "addBatch_score e4 (solutionValid e4 srv) sv ret0 = (keep, ret1, e5)"
    by (metis prod.collapse)
  note after = addBatch_after_trial [OF trial score call]
  from acc after(1) have kf: "keep \<or> force" by simp
  then have e': "e' = e5" using after(11) by auto
  have "problem e5 = problem e4"
    using addBatch_score_ret(6) [OF score] .
  then have n: "getNumBatches e' = getNumBatches e + 1"
    by (simp add: e' getNumBatches_def getNumOptimizationProblems_def
        addBatch_trial_fields(10) [OF trial])
  have k: "keepBatch e4 (solutionValid e4 srv) sv ret0 = keep"
    by (simp add: keepBatch_def score)
  have snap: "NS e' = r_NS ret \<and> CS e' = r_CS ret \<and> Sigma e' = r_Sigma ret
       \<and> SigmaP e' = r_SigmaP ret \<and> Omega e' = r_Omega ret \<and> svLogSum e' = sv" if keep
    using score that after(3-7)
    by (auto simp: e' addBatch_score_def Let_def split: if_splits)
  have "analyzeMarginalizedSystem B e4 = (svLogSum e', NS e', CS e', Sigma e', SigmaP e', Omega e')"
    if keep
    using snap [OF that] addBatch_trial_ret [OF trial] after(3-7) by simp
  with n k snap show ?thesis by simp
qed

theorem addBatch_accepted_commits_witness:
  "fst exInformative = Inr (projr (fst exInformative))
   \<and> r_batchAccepted (projr (fst exInformative))
   \<and> getNumBatches (exCommitted 5) = 1
   \<and> getNumBatches (snd exInformative) = 2
   \<and> svLogSum (snd exInformative) = 6
   \<and> Omega (snd exInformative) = r_Omega (projr (fst exInformative))
   \<and> CS (snd exInformative) = r_CS (projr (fst exInformative))"
proof -
  define T where "T = addBatch_trial (exBackend 3 10 1 6 2) (exBatch 2) (exCommitted 5)"
  have "fst T = Inr (projr (fst T))"
    unfolding T_def by (simp add: eval_defs)
  then have trial: "addBatch_trial (exBackend 3 10 1 6 2) (exBatch 2) (exCommitted 5)
      = (Inr (trialSrv T, trialSv T, trialRet T), snd T)"
    unfolding T_def by (rule trial_collapse)
  have ok: "fst exInformative = Inr (projr (fst exInformative))"
    by (simp add: exInformative_def eval_defs)
  then have call: "addBatch (exBackend 3 10 1 6 2) (exBatch 2) False (exCommitted 5)
      = (Inr (projr (fst exInformative)), snd exInformative)"
    unfolding exInformative_def by (rule result_collapse)
  have acc: "r_batchAccepted (projr (fst exInformative))"
    by (simp add: exInformative_def eval_defs)
  have keep: "keepBatch (snd T) (solutionValid (snd T) (trialSrv T)) (trialSv T) (trialRet T)"
    unfolding T_def by (simp add: trialSrv_def trialSv_def trialRet_def eval_defs)
  have sv: "trialSv T = 6"
    unfolding T_def by (simp add: trialSv_def eval_defs)
  have n: "getNumBatches (exCommitted 5) = 1"
    by (simp add: eval_defs)
  from addBatch_accepted_commits [OF trial call acc] ok acc keep sv n
  show ?thesis by simp
qed

text \<open>
  The claim as stated fails for a batch accepted by force only: the batch stays in the
  pool, and the estimator keeps the snapshot it had before the trial, which is not the
  snapshot of the committed batches.
\<close>

theorem forced_accept_counterexample:
  "fst exForced = Inr (projr (fst exForced))
   \<and> r_batchAccepted (projr (fst exForced))
   \<and> optimizationProblems (problem (snd exForced)) = [exBatch 1, exBatch 2]
   \<and> svLogSum (snd exForced) = 5
   \<and> Omega (snd exForced) = Omega (exCommitted 5)
   \<and> Omega (snd exForced) \<noteq> r_Omega (projr (fst exForced))
   \<and> CS (snd exForced) \<noteq> r_CS (projr (fst exForced))
   \<and> analyzeMarginalizedSystem (exBackend 3 10 1 (51 / 10) 2) (snd exForced) \<noteq>
       (svLogSum (snd exForced), NS (snd exForced), CS (snd exForced), Sigma (snd exForced),
        SigmaP (snd exForced), Omega (snd exForced))"
  by (simp add: exForced_def eval_defs)

section \<open>Information gain and classification\<close>

text \<open>
  C3, as the code has it: for every trial but one on an estimator whose stored
  log-singular-value sum is exactly 0 and whose solution is valid, the information gain
  is 0.5 times the difference between the new and the stored log-singular-value sum, and
  the batch is classified informative exactly when the solution is valid and either the
  gain strictly exceeds the threshold or the new column space has strictly more columns
  than the current one; so a rank increase makes a valid batch informative whatever the
  gain. The batch is accepted exactly when it is informative or forced.
\<close>

theorem addBatch_information_gain:
  assumes trial: "addBatch_trial B batch e = (Inr (srv, sv, ret0), e4)"
    and later: "svLogSum e \<noteq> 0 \<or> \<not> solutionValid e4 srv"
    and call: "addBatch B batch force e = (Inr ret, e')"
  shows "r_mi ret = 0.5 * (sv - svLogSum e)
       \<and> (keepBatch e4 (solutionValid e4 srv) sv ret0 \<longleftrightarrow>
            solutionValid e4 srv
            \<and> (r_mi ret > miTol (options e) \<or> cols (r_CS ret) > cols (CS e)))
       \<and> (r_batchAccepted ret \<longleftrightarrow> force \<or> keepBatch e4 (solutionValid e4 srv) sv ret0)"
proof -
  obtain keep ret1 e5 where
    score: "addBatch_score e4 (solutionValid e4 srv) sv ret0 = (keep, ret1, e5)"
    by (metis prod.collapse)
  note after = addBatch_after_trial [OF trial score call]
  note fields = addBatch_trial_fields [OF trial]
  have k: "keepBatch e4 (solutionValid e4 srv) sv ret0 = keep"
    by (simp add: keepBatch_def score)
  from later have els: "\<not> (svLogSum e4 = 0 \<and> solutionValid e4 srv)"
    by (auto simp: fields(1))
  from score els have mi1: "r_mi ret1 = 0.5 * (sv - svLogSum e)"
    by (auto simp: addBatch_score_def Let_def fields(1) split: if_splits)
  from score els have keep:
    "keep \<longleftrightarrow> solutionValid e4 srv
        \<and> (0.5 * (sv - svLogSum e) > miTol (options e) \<or> cols (r_CS ret0) > cols (CS e))"
    by (auto simp: addBatch_score_def Let_def fields(1) fields(3) fields(5) split: if_splits)
  show ?thesis
    using keep mi1 by (auto simp: k after(1) after(2) after(4))
qed

theorem addBatch_information_gain_witness:
  "svLogSum (exCommitted 5) \<noteq> 0
   \<and> fst exRankUp = Inr (projr (fst exRankUp))
   \<and> r_mi (projr (fst exRankUp)) = 0.5 * (51 / 10 - 5)
   \<and> \<not> r_mi (projr (fst exRankUp)) > miTol (options (exCommitted 5))
   \<and> cols (r_CS (projr (fst exRankUp))) > cols (CS (exCommitted 5))
   \<and> r_batchAccepted (projr (fst exRankUp))"
proof -
  define T where "T = addBatch_trial (exBackend 3 10 1 (51 / 10) 3) (exBatch 2) (exCommitted 5)"
  have "fst T = Inr (projr (fst T))"
    unfolding T_def by (simp add: eval_defs)
  then have trial: "addBatch_trial (exBackend 3 10 1 (51 / 10) 3) (exBatch 2) (exCommitted 5)
      = (Inr (trialSrv T, trialSv T, trialRet T), snd T)"
    unfolding T_def by (rule trial_collapse)
  have ok: "fst exRankUp = Inr (projr (fst exRankUp))"
    by (simp add: exRankUp_def eval_defs)
  then have call: "addBatch (exBackend 3 10 1 (51 / 10) 3) (exBatch 2) False (exCommitted 5)
      = (Inr (projr (fst exRankUp)), snd exRankUp)"
    unfolding exRankUp_def by (rule result_collapse)
  have nz: "svLogSum (exCommitted 5) \<noteq> 0"
    by (simp add: eval_defs)
  then have later: "svLogSum (exCommitted 5) \<noteq> 0 \<or> \<not> solutionValid (snd T) (trialSrv T)"
    by simp
  have valid: "solutionValid (snd T) (trialSrv T)"
    unfolding T_def by (simp add: trialSrv_def eval_defs)
  have sv: "trialSv T = 51 / 10"
    unfolding T_def by (simp add: trialSv_def eval_defs)
  have rank: "cols (r_CS (projr (fst exRankUp))) > cols (CS (exCommitted 5))"
    by (simp add: exRankUp_def eval_defs)
  have old: "svLogSum (exCommitted 5) = 5" "miTol (options (exCommitted 5)) = 0.2"
    by (simp_all add: eval_defs)
  from addBatch_information_gain [OF trial later call] ok nz valid sv rank old
  show ?thesis by simp
qed

text \<open>
  The claim as stated fails after a bootstrap that commits a log-singular-value sum of
  0: the second trial is valid, half the difference of the sums is 0.05, below the
  threshold 0.2, and the rank is unchanged, yet the reported gain is 0 and the batch is
  classified informative and kept.
\<close>

theorem zero_sum_committed_counterexample:
  "getNumBatches exEstimator = 0
   \<and> fst exBootZero = Inr (projr (fst exBootZero))
   \<and> r_batchAccepted (projr (fst exBootZero))
   \<and> getNumBatches (snd exBootZero) = 1
   \<and> svLogSum (snd exBootZero) = 0
   \<and> fst exAfterBootZero = Inr (projr (fst exAfterBootZero))
   \<and> solutionValid
        (snd (addBatch_trial (exBackend 3 10 1 (1 / 10) 2) (exBatch 2) (snd exBootZero)))
        (trialSrv (addBatch_trial (exBackend 3 10 1 (1 / 10) 2) (exBatch 2) (snd exBootZero)))
   \<and> trialSv (addBatch_trial (exBackend 3 10 1 (1 / 10) 2) (exBatch 2) (snd exBootZero)) = 1 / 10
   \<and> r_mi (projr (fst exAfterBootZero)) = 0
   \<and> r_mi (projr (fst exAfterBootZero)) \<noteq> 0.5 * (1 / 10 - svLogSum (snd exBootZero))
   \<and> \<not> 0.5 * (1 / 10 - svLogSum (snd exBootZero)) > miTol (options (snd exBootZero))
   \<and> \<not> cols (r_CS (projr (fst exAfterBootZero))) > cols (CS (snd exBootZero))
   \<and> keepBatch
        (snd (addBatch_trial (exBackend 3 10 1 (1 / 10) 2) (exBatch 2) (snd exBootZero)))
        True (1 / 10)
        (trialRet (addBatch_trial (exBackend 3 10 1 (1 / 10) 2) (exBatch 2) (snd exBootZero)))
   \<and> r_batchAccepted (projr (fst exAfterBootZero))
   \<and> getNumBatches (snd exAfterBootZero) = 2"
  by (simp add: exBootZero_def exAfterBootZero_def trialSrv_def trialSv_def trialRet_def eval_defs)

text \<open>
  C4, as the code has it: the solution of a trial is invalid exactly when the iteration
  count equals the configured maximum or the final cost is greater than or equal to the
  start cost.
\<close>

theorem addBatch_solutionValid:
  assumes trial: "addBatch_trial B batch e = (Inr (srv, sv, ret0), e4)"
  shows "(\<not> solutionValid e4 srv) =
         (iterations srv = maxIterations (options e) \<or> JStart srv \<le> JFinal srv)"
  by (simp add: solutionValid_def addBatch_trial_fields(9) [OF trial])

theorem addBatch_solutionValid_witness:
  "fst (addBatch_trial (exBackend 3 10 12 6 2) (exBatch 2) (exCommitted 5)) =
     Inr (projr (fst (addBatch_trial (exBackend 3 10 12 6 2) (exBatch 2) (exCommitted 5))))
   \<and> iterations (trialSrv (addBatch_trial (exBackend 3 10 12 6 2) (exBatch 2) (exCommitted 5))) = 3
   \<and> maxIterations (options (exCommitted 5)) = 20
   \<and> \<not> solutionValid (snd (addBatch_trial (exBackend 3 10 12 6 2) (exBatch 2) (exCommitted 5)))
         (trialSrv (addBatch_trial (exBackend 3 10 12 6 2) (exBatch 2) (exCommitted 5)))"
proof -
  define T where "T = addBatch_trial (exBackend 3 10 12 6 2) (exBatch 2) (exCommitted 5)"
  have ok: "fst T = Inr (projr (fst T))"
    unfolding T_def by (simp add: eval_defs)
  then have trial: "addBatch_trial (exBackend 3 10 12 6 2) (exBatch 2) (exCommitted 5)
      = (Inr (trialSrv T, trialSv T, trialRet T), snd T)"
    unfolding T_def by (rule trial_collapse)
  have srv: "iterations (trialSrv T) = 3" "JStart (trialSrv T) = 10" "JFinal (trialSrv T) = 12"
    unfolding T_def by (simp_all add: trialSrv_def eval_defs)
  have mx: "maxIterations (options (exCommitted 5)) = 20"
    by (simp add: eval_defs)
  from addBatch_solutionValid [OF trial] ok srv mx
  show ?thesis unfolding T_def by simp
qed

text \<open>
  The claim as stated, with "and" for "or", fails: a solve that hits the iteration cap
  while it decreases the cost is invalid, and its batch is rejected although the gain
  exceeds the threshold.
\<close>

theorem cap_hit_counterexample:
  "fst exCapHit = Inr (projr (fst exCapHit))
   \<and> r_numIterations (projr (fst exCapHit)) = maxIterations (options (exCommitted 5))
   \<and> r_JFinal (projr (fst exCapHit)) < r_JStart (projr (fst exCapHit))
   \<and> \<not> solutionValid (snd (addBatch_trial (exBackend 20 10 1 6 2) (exBatch 2) (exCommitted 5)))
         (trialSrv (addBatch_trial (exBackend 20 10 1 6 2) (exBatch 2) (exCommitted 5)))
   \<and> r_mi (projr (fst exCapHit)) > miTol (options (exCommitted 5))
   \<and> \<not> r_batchAccepted (projr (fst exCapHit))"
  by (simp add: exCapHit_def trialSrv_def eval_defs)

section \<open>Errors\<close>

text \<open>
  C5, as the code has it: if the marginalized group is absent from the groups ordering
  of the pool when \<^verbatim>\<open>addBatch\<close> orders the groups, the call fails with
  \<open>InvalidOperationException\<close> before any solve, and the estimator is left as it was
  but for the pool, which holds the candidate batch inserted before the check.
\<close>

theorem addBatch_unknown_group:
  assumes "margGroupId e \<notin> set (getGroupsOrdering (problem_add batch (problem e)))"
  shows "addBatch B batch force e =
           (Inl InvalidOperationException, e\<lparr>problem := problem_add batch (problem e)\<rparr>)"
proof -
  let ?e1 = "e\<lparr>problem := problem_add batch (problem e)\<rparr>"
  from assms have "find_pos (margGroupId ?e1) (getGroupsOrdering (problem ?e1)) = None"
    by (simp add: find_pos_None)
  then have "orderMarginalizedDesignVariables ?e1 = Inl InvalidOperationException"
    by (simp add: orderMarginalizedDesignVariables_def Let_def)
  then show ?thesis
    by (simp add: addBatch_def addBatch_trial_def Let_def)
qed

theorem addBatch_unknown_group_witness:
  "margGroupId exEstimator \<notin> set (getGroupsOrdering (problem_add (exPoseBatch 1) (problem exEstimator)))
   \<and> addBatch (exBackend 3 10 1 2 2) (exPoseBatch 1) False exEstimator =
       (Inl InvalidOperationException,
        exEstimator\<lparr>problem := problem_add (exPoseBatch 1) (problem exEstimator)\<rparr>)"
proof -
  have h: "margGroupId exEstimator \<notin>
      set (getGroupsOrdering (problem_add (exPoseBatch 1) (problem exEstimator)))"
    by (simp add: eval_defs)
  from addBatch_unknown_group [OF h] h show ?thesis by simp
qed

text \<open>
  The claim as stated fails: the failed call leaves the candidate batch in the pool.
\<close>

theorem unknown_group_counterexample:
  "margGroupId exEstimator \<notin> set (getGroupsOrdering (problem_add (exPoseBatch 1) (problem exEstimator)))
   \<and> fst (addBatch (exBackend 3 10 1 2 2) (exPoseBatch 1) False exEstimator) = Inl InvalidOperationException
   \<and> optimizationProblems (problem exEstimator) = []
   \<and> optimizationProblems (problem (snd (addBatch (exBackend 3 10 1 2 2) (exPoseBatch 1) False exEstimator)))
       = [exPoseBatch 1]
   \<and> snd (addBatch (exBackend 3 10 1 2 2) (exPoseBatch 1) False exEstimator) \<noteq> exEstimator"
  by (simp add: eval_defs)

text \<open>
  C6, as the code has it: for every batch that is not committed in the pool,
  \<^verbatim>\<open>removeBatch\<close> with that batch returns normally and changes nothing: no solve, no
  change of the snapshot, the same batches.
\<close>

theorem removeBatch_absent:
  assumes "batch \<notin> set (optimizationProblems (problem e))"
  shows "removeBatch B batch e = (Inr (), e)"
  using assms by (simp add: removeBatch_def getOptimizationProblem_def find_pos_None [THEN iffD2])

theorem removeBatch_absent_witness:
  "exBatch 2 \<notin> set (optimizationProblems (problem (exCommitted 5)))
   \<and> removeBatch (exBackend 3 10 1 2 2) (exBatch 2) (exCommitted 5) = (Inr (), exCommitted 5)"
proof -
  have h: "exBatch 2 \<notin> set (optimizationProblems (problem (exCommitted 5)))"
    by (simp add: eval_defs)
  from removeBatch_absent [OF h] h show ?thesis by simp
qed

text \<open>
  The claim as stated fails: no \<open>NotFound\<close> error is raised.
\<close>

theorem removeBatch_absent_counterexample:
  "exBatch 2 \<notin> set (optimizationProblems (problem (exCommitted 5)))
   \<and> fst (removeBatch (exBackend 3 10 1 2 2) (exBatch 2) (exCommitted 5)) \<noteq> Inl NotFound
   \<and> fst (removeBatch (exBackend 3 10 1 2 2) (exBatch 2) (exCommitted 5)) = Inr ()"
  by (simp add: eval_defs)

section \<open>The bootstrap\<close>

text \<open>
  C7, as the code has it: on an estimator as constructed, after any number of rejected
  trials, the batch of the next trial is classified informative exactly when the solution
  is valid. When the solution is valid the batch is accepted and reports an information
  gain of 0; when it is not, the batch is accepted exactly when it is forced and reports
  0.5 times its log-singular-value sum. The validity of the solution is read off the
  return value.
\<close>

theorem first_accepted_batch_gain:
  assumes run: "addBatches calls (IncrementalEstimator_new B0 groupId opts) = (Inr rets, e)"
    and before: "\<forall>r \<in> set rets. \<not> r_batchAccepted r"
    and trial: "addBatch_trial B batch e = (Inr (srv, sv, ret0), e4)"
    and call: "addBatch B batch force e = (Inr ret, e')"
  shows "(keepBatch e4 (solutionValid e4 srv) sv ret0 \<longleftrightarrow> solutionValid e4 srv)
       \<and> (solutionValid e4 srv \<longleftrightarrow>
            r_numIterations ret \<noteq> maxIterations opts \<and> r_JFinal ret < r_JStart ret)
       \<and> (solutionValid e4 srv \<longrightarrow> r_batchAccepted ret \<and> r_mi ret = 0)
       \<and> (\<not> solutionValid e4 srv \<longrightarrow>
            (r_batchAccepted ret \<longleftrightarrow> force) \<and> r_mi ret = 0.5 * sv)"
proof -
  from addBatches_rejected_keeps [OF run before]
  have z: "svLogSum e = 0" and o: "options e = opts"
    by (simp_all add: IncrementalEstimator_new_def)
  obtain keep ret1 e5 where
    score: "addBatch_score e4 (solutionValid e4 srv) sv ret0 = (keep, ret1, e5)"
    by (metis prod.collapse)
  note after = addBatch_after_trial [OF trial score call]
  note fields = addBatch_trial_fields [OF trial]
  have k: "keepBatch e4 (solutionValid e4 srv) sv ret0 = keep"
    by (simp add: keepBatch_def score)
  from z have z4: "svLogSum e4 = 0" by (simp add: fields(1))
  note zero = addBatch_score_zero [OF score z4]
  have v: "solutionValid e4 srv \<longleftrightarrow>
      r_numIterations ret \<noteq> maxIterations opts \<and> r_JFinal ret < r_JStart ret"
    using o by (auto simp: solutionValid_def fields(9) after(8-10))
  have a: "r_batchAccepted ret = (solutionValid e4 srv \<or> force)"
    by (simp add: after(1) zero(1))
  have m: "r_mi ret = (if solutionValid e4 srv then 0 else 0.5 * sv)"
    by (simp add: after(2) zero(2))
  show ?thesis
  proof (intro conjI)
    show "keepBatch e4 (solutionValid e4 srv) sv ret0 \<longleftrightarrow> solutionValid e4 srv"
      by (simp add: k zero(1))
    show "solutionValid e4 srv \<longleftrightarrow>
        r_numIterations ret \<noteq> maxIterations opts \<and> r_JFinal ret < r_JStart ret"
      by (rule v)
    show "solutionValid e4 srv \<longrightarrow> r_batchAccepted ret \<and> r_mi ret = 0"
      by (simp add: a m)
    show "\<not> solutionValid e4 srv \<longrightarrow>
        (r_batchAccepted ret \<longleftrightarrow> force) \<and> r_mi ret = 0.5 * sv"
      by (simp add: a m)
  qed
qed

theorem first_accepted_batch_gain_witness:
  "fst exRejectedRun = Inr (projr (fst exRejectedRun))
   \<and> length (projr (fst exRejectedRun)) = 1
   \<and> \<not> r_batchAccepted (projr (fst exRejectedRun) ! 0)
   \<and> getNumBatches (snd exRejectedRun) = 0
   \<and> fst exFirstAccepted = Inr (projr (fst exFirstAccepted))
   \<and> r_numIterations (projr (fst exFirstAccepted)) = 3
   \<and> r_batchAccepted (projr (fst exFirstAccepted))
   \<and> r_mi (projr (fst exFirstAccepted)) = 0
   \<and> getNumBatches (snd exFirstAccepted) = 1"
proof -
  define T where "T = addBatch_trial (exBackend 3 10 1 2 2) (exBatch 1) (snd exRejectedRun)"
  have okr: "fst exRejectedRun = Inr (projr (fst exRejectedRun))"
    by (simp add: exRejectedRun_def eval_defs)
  then have run: "addBatches [(exBackend 20 10 1 2 2, exBatch 1, False)]
       (IncrementalEstimator_new (exBackend 0 0 0 0 0) 1 exOptions)
      = (Inr (projr (fst exRejectedRun)), snd exRejectedRun)"
    unfolding exRejectedRun_def exEstimator_def by (rule result_collapse)
  have rets: "projr (fst exRejectedRun) = [projr (fst exRejectedRun) ! 0]"
    and rej: "\<not> r_batchAccepted (projr (fst exRejectedRun) ! 0)"
    and n0: "getNumBatches (snd exRejectedRun) = 0"
    by (simp_all add: exRejectedRun_def eval_defs)
  have before: "\<forall>r \<in> set (projr (fst exRejectedRun)). \<not> r_batchAccepted r"
    using rej by (subst rets) simp
  have len: "length (projr (fst exRejectedRun)) = 1"
    by (subst rets) simp
  have "fst T = Inr (projr (fst T))"
    unfolding T_def by (simp add: exRejectedRun_def eval_defs)
  then have trial: "addBatch_trial (exBackend 3 10 1 2 2) (exBatch 1) (snd exRejectedRun)
      = (Inr (trialSrv T, trialSv T, trialRet T), snd T)"
    unfolding T_def by (rule trial_collapse)
  have ok: "fst exFirstAccepted = Inr (projr (fst exFirstAccepted))"
    by (simp add: exFirstAccepted_def exRejectedRun_def eval_defs)
  then have call: "addBatch (exBackend 3 10 1 2 2) (exBatch 1) False (snd exRejectedRun)
      = (Inr (projr (fst exFirstAccepted)), snd exFirstAccepted)"
    unfolding exFirstAccepted_def by (rule result_collapse)
  have v: "r_numIterations (projr (fst exFirstAccepted)) = 3"
    "r_JFinal (projr (fst exFirstAccepted)) < r_JStart (projr (fst exFirstAccepted))"
    "maxIterations exOptions = 20"
    "getNumBatches (snd exFirstAccepted) = 1"
    by (simp_all add: exFirstAccepted_def exRejectedRun_def eval_defs)
  from first_accepted_batch_gain [OF run before trial call] okr len rej n0 ok v
  show ?thesis by simp
qed

text \<open>
  The claim as stated fails for a first batch accepted by force after a solve that is
  not valid: its information gain is half its log-singular-value sum.
\<close>

theorem first_forced_counterexample:
  "getNumBatches exEstimator = 0
   \<and> svLogSum exEstimator = 0
   \<and> fst exFirstForced = Inr (projr (fst exFirstForced))
   \<and> r_batchAccepted (projr (fst exFirstForced))
   \<and> getNumBatches (snd exFirstForced) = 1
   \<and> r_mi (projr (fst exFirstForced)) = 1
   \<and> r_mi (projr (fst exFirstForced)) \<noteq> 0"
  by (simp add: exFirstForced_def eval_defs)

section \<open>Reoptimization\<close>

text \<open>
  C8: \<^verbatim>\<open>reoptimize\<close> on a committed estimator whose marginalization has changed. The
  call adds and removes no batch, updates the log-singular-value sum and the covariance,
  and returns a gain of 0 and \<^verbatim>\<open>batchAccepted = false\<close>; the precision matrix of the
  estimator stays the one of the last commit and differs from the one just computed.
\<close>

theorem reoptimize_stale_Omega:
  "fst (reoptimize (exBackend 3 10 1 6 2) (exCommitted 5)) =
     Inr (projr (fst (reoptimize (exBackend 3 10 1 6 2) (exCommitted 5))))
   \<and> r_Omega (projr (fst (reoptimize (exBackend 3 10 1 6 2) (exCommitted 5)))) =
       \<lparr>rows = 3, cols = 3, coeffs = [6, 6]\<rparr>
   \<and> Omega (snd (reoptimize (exBackend 3 10 1 6 2) (exCommitted 5))) =
       \<lparr>rows = 3, cols = 3, coeffs = [5, 5]\<rparr>
   \<and> Omega (snd (reoptimize (exBackend 3 10 1 6 2) (exCommitted 5))) = Omega (exCommitted 5)
   \<and> svLogSum (snd (reoptimize (exBackend 3 10 1 6 2) (exCommitted 5))) = 6
   \<and> Sigma (snd (reoptimize (exBackend 3 10 1 6 2) (exCommitted 5))) =
       r_Sigma (projr (fst (reoptimize (exBackend 3 10 1 6 2) (exCommitted 5))))
   \<and> r_mi (projr (fst (reoptimize (exBackend 3 10 1 6 2) (exCommitted 5)))) = 0
   \<and> \<not> r_batchAccepted (projr (fst (reoptimize (exBackend 3 10 1 6 2) (exCommitted 5))))"
  by (simp add: eval_defs)

section \<open>The pending decision\<close>

text \<open>
  C9: a pending decision is single-use. The first \<^verbatim>\<open>accept()\<close> or \<^verbatim>\<open>reject()\<close> on
  it succeeds and consumes it; any second \<^verbatim>\<open>accept()\<close> or \<^verbatim>\<open>reject()\<close> fails with
  the double-consumption error and changes neither the estimator nor the decision.
\<close>

theorem pending_decision_single_use:
  assumes pending: "isSet tr"
    and first: "consume B upd c1 tr e = (r1, tr1, e1)"
  shows "r1 = Inr () \<and> \<not> isSet tr1
       \<and> consume B upd c2 tr1 e1 = (Inl DoubleConsumption, tr1, e1)"
proof -
  from pending obtain batch where b: "tbBatch tr = Some batch"
    by (auto simp: isSet_def)
  have r1: "r1 = Inr ()" and tr1: "tr1 = unset tr"
    using first b
    by (cases c1; simp add: accept_def reject_def acceptBatch_def rejectBatch_def Let_def)+
  have u: "tbBatch tr1 = None"
    by (simp add: tr1 unset_def)
  have "consume B upd c2 tr1 e1 = (Inl DoubleConsumption, tr1, e1)"
    using u by (cases c2) (simp_all add: accept_def reject_def acceptBatch_def rejectBatch_def)
  with r1 u show ?thesis
    by (simp add: isSet_def)
qed

theorem pending_decision_single_use_witness:
  "isSet exDecision
   \<and> fst (consume (exBackend 3 10 1 2 2) exUpdate Accept exDecision (exCommitted 5)) = Inr ()
   \<and> mi (snd (snd (consume (exBackend 3 10 1 2 2) exUpdate Accept exDecision (exCommitted 5)))) = 1
   \<and> consume (exBackend 3 10 1 2 2) exUpdate (Reject True)
        (fst (snd (consume (exBackend 3 10 1 2 2) exUpdate Accept exDecision (exCommitted 5))))
        (snd (snd (consume (exBackend 3 10 1 2 2) exUpdate Accept exDecision (exCommitted 5))))
      = (Inl DoubleConsumption,
         fst (snd (consume (exBackend 3 10 1 2 2) exUpdate Accept exDecision (exCommitted 5))),
         snd (snd (consume (exBackend 3 10 1 2 2) exUpdate Accept exDecision (exCommitted 5))))"
proof -
  define R where "R = consume (exBackend 3 10 1 2 2) exUpdate Accept exDecision (exCommitted 5)"
  have p: "isSet exDecision"
    by (simp add: isSet_def exDecision_def)
  have first: "consume (exBackend 3 10 1 2 2) exUpdate Accept exDecision (exCommitted 5)
      = (fst R, fst (snd R), snd (snd R))"
    by (simp add: R_def)
  have m: "mi (snd (snd R)) = 1"
    by (simp add: R_def accept_def acceptBatch_def exDecision_def exUpdate_def
        ReturnValue_default_def)
  from pending_decision_single_use [OF p first, of "Reject True"] p m
  show ?thesis unfolding R_def by simp
qed

section \<open>Bootstrap detection\<close>

text \<open>
  C10, as the code has it: whenever the stored log-singular-value sum is 0, whatever
  the number of committed batches, the batch is classified informative exactly when the
  solution is valid; the reported information gain is 0 when the solution is valid and
  half the new log-singular-value sum when it is not.
\<close>

theorem addBatch_zero_sum_bootstrap:
  assumes trial: "addBatch_trial B batch e = (Inr (srv, sv, ret0), e4)"
    and z: "svLogSum e = 0"
    and call: "addBatch B batch force e = (Inr ret, e')"
  shows "(keepBatch e4 (solutionValid e4 srv) sv ret0 \<longleftrightarrow> solutionValid e4 srv)
       \<and> r_mi ret = (if solutionValid e4 srv then 0 else 0.5 * sv)
       \<and> (r_batchAccepted ret \<longleftrightarrow> force \<or> solutionValid e4 srv)"
proof -
  obtain keep ret1 e5 where
    score: "addBatch_score e4 (solutionValid e4 srv) sv ret0 = (keep, ret1, e5)"
    by (metis prod.collapse)
  note after = addBatch_after_trial [OF trial score call]
  have k: "keepBatch e4 (solutionValid e4 srv) sv ret0 = keep"
    by (simp add: keepBatch_def score)
  from z have z4: "svLogSum e4 = 0" by (simp add: addBatch_trial_fields(1) [OF trial])
  from score z4 have "keep = solutionValid e4 srv"
    and "r_mi ret1 = (if solutionValid e4 srv then 0 else 0.5 * sv)"
    by (auto simp: addBatch_score_def Let_def split: if_splits)
  then show ?thesis
    by (auto simp: k after(1) after(2))
qed

theorem addBatch_zero_sum_bootstrap_witness:
  "svLogSum (exCommitted 0) = 0
   \<and> getNumBatches (exCommitted 0) = 1
   \<and> fst exZeroValid = Inr (projr (fst exZeroValid))
   \<and> r_mi (projr (fst exZeroValid)) = 0
   \<and> r_batchAccepted (projr (fst exZeroValid))"
proof -
  define T where "T = addBatch_trial (exBackend 3 10 1 2 2) (exBatch 2) (exCommitted 0)"
  have "fst T = Inr (projr (fst T))"
    unfolding T_def by (simp add: eval_defs)
  then have trial: "addBatch_trial (exBackend 3 10 1 2 2) (exBatch 2) (exCommitted 0)
      = (Inr (trialSrv T, trialSv T, trialRet T), snd T)"
    unfolding T_def by (rule trial_collapse)
  have ok: "fst exZeroValid = Inr (projr (fst exZeroValid))"
    by (simp add: exZeroValid_def eval_defs)
  then have call: "addBatch (exBackend 3 10 1 2 2) (exBatch 2) False (exCommitted 0)
      = (Inr (projr (fst exZeroValid)), snd exZeroValid)"
    unfolding exZeroValid_def by (rule result_collapse)
  have z: "svLogSum (exCommitted 0) = 0"
    by (simp add: eval_defs)
  have n: "getNumBatches (exCommitted 0) = 1"
    by (simp add: eval_defs)
  have valid: "solutionValid (snd T) (trialSrv T)"
    unfolding T_def by (simp add: trialSrv_def eval_defs)
  from addBatch_zero_sum_bootstrap [OF trial z call] ok z n valid
  show ?thesis by simp
qed

text \<open>
  The claim as stated fails: with a stored sum of 0 and a solution that is not valid,
  the reported gain is not 0.
\<close>

theorem zero_sum_invalid_counterexample:
  "svLogSum (exCommitted 0) = 0
   \<and> fst exZeroInvalid = Inr (projr (fst exZeroInvalid))
   \<and> r_mi (projr (fst exZeroInvalid)) = 1
   \<and> r_mi (projr (fst exZeroInvalid)) \<noteq> 0
   \<and> \<not> r_batchAccepted (projr (fst exZeroInvalid))"
  by (simp add: exZeroInvalid_def eval_defs)

end
